theory Spec2Isabelle
  imports Complex_Main "HOL-Library.AList"
begin

section \<open>Partition keys: \<open>sanitize_sheet_name\<close>\<close>

text \<open>
  A Python \<open>str\<close> is modelled as a \<open>string\<close>: one \<open>char\<close> stands for one character
  of the Python string, so \<open>length\<close> and \<open>take\<close> count what \<open>len\<close> and slicing count.

  \<open>s.startswith(p)\<close>: the pattern \<open>p\<close> is an initial segment of \<open>s\<close>.
\<close>

fun startswith :: "string \<Rightarrow> string \<Rightarrow> bool" where
  "startswith s [] = True"
| "startswith [] (p # ps) = False"
| "startswith (c # cs) (p # ps) = (c = p \<and> startswith cs ps)"

text \<open>
  \<open>s.replace(old, new)\<close> of Python: the string is scanned from the left, every
  occurrence of \<open>old\<close> that does not overlap an earlier one is replaced by \<open>new\<close>,
  and the scan goes on behind the occurrence (what has been put in is not scanned
  again). With an empty \<open>old\<close>, \<open>new\<close> is put in before every character and at the end.
\<close>

function replace :: "string \<Rightarrow> string \<Rightarrow> string \<Rightarrow> string" where
  "replace old new [] = (if old = [] then new else [])"
| "replace old new (c # cs) =
     (if old = [] then new @ c # replace old new cs
      else if startswith (c # cs) old
        then new @ replace old new (drop (length old) (c # cs))
      else c # replace old new cs)"
  by pat_completeness auto
termination
  by (relation "measure (\<lambda>(old, new, s). length s)") auto

text \<open>\<open>invalid_chars = r'[]/\?*:'\<close>, a raw string of seven characters.\<close>

definition invalid_chars :: string where
  "invalid_chars = [CHR ''['', CHR '']'', CHR ''/'', CHR 0x5C, CHR ''?'', CHR ''*'', CHR '':'']"

text \<open>
  \<^verbatim>\<open>
  name = url.replace("https://", "").replace("http://", "").replace("www.", "")
  invalid_chars = r'[]/\?*:'
  for char in invalid_chars:
      name = name.replace(char, '_')
  return name[:31]
  \<close>
  The \<open>for\<close> loop is the left fold over \<open>invalid_chars\<close>.
\<close>

definition sanitize_sheet_name :: "string \<Rightarrow> string" where
  "sanitize_sheet_name url =
     (let name = replace ''www.'' '''' (replace ''http://'' '''' (replace ''https://'' '''' url));
          name = foldl (\<lambda>name char. replace [char] ''_'' name) name invalid_chars
      in take 31 name)"

section \<open>Numbers as text\<close>

text \<open>\<open>str(n)\<close> for a natural number: its decimal digits.\<close>

definition digit :: "nat \<Rightarrow> char" where
  "digit d = ''0123456789'' ! d"

fun str_nat :: "nat \<Rightarrow> string" where
  "str_nat n = (if n < 10 then [digit n] else str_nat (n div 10) @ [digit (n mod 10)])"

declare str_nat.simps [simp del]

definition str_int :: "int \<Rightarrow> string" where
  "str_int i = (if i < 0 then ''-'' @ str_nat (nat (- i)) else str_nat (nat i))"

text \<open>
  The download time is a Python \<open>float\<close> (a difference of two \<open>time.time()\<close> readings) or
  the \<open>int\<close> 0. Both denote a rational number, and the model keeps that number: the
  rounding of float arithmetic, infinities and NaN are outside the model.

  \<open>f"{x:.4f}"\<close> prints the value rounded to four decimal places, a tie going to the even
  neighbour, with a minus sign for a negative value.
\<close>

definition round_half_even :: "rat \<Rightarrow> int" where
  "round_half_even q =
     (let f = \<lfloor>q\<rfloor>; r = q - of_int f
      in if r < 1 / 2 then f else if 1 / 2 < r then f + 1 else if even f then f else f + 1)"

definition format_4f :: "rat \<Rightarrow> string" where
  "format_4f x =
     (let m = nat (round_half_even (\<bar>x\<bar> * 10000))
      in (if x < 0 then ''-'' else '''') @ str_nat (m div 10000) @ ''.'' @
         [digit (m mod 10000 div 1000), digit (m mod 1000 div 100),
          digit (m mod 100 div 10), digit (m mod 10)])"

section \<open>Effects\<close>

text \<open>
  A message handed to \<open>smtplib\<close>: the \<open>MIMEText\<close> body with the headers the code sets.
  A header that was not set is \<open>None\<close>.
\<close>

record email =
  Body :: string
  Subject :: "string option"
  To :: "string option"
  From :: "string option"

text \<open>
  What a run does to the outside, in order: the lines it prints, the HTTP request of
  the probe and the calls on the mail transport. The last two constructors are not
  effects of their own: they mark the moments at which \<open>main\<close> calls \<open>log_to_excel\<close> and
  \<open>send_email_alert\<close>, with the arguments of the call.
\<close>

datatype event =
    Print string
  | Requests_get string "(string \<times> string) list" nat
  | SMTP string
  | SMTP_SSL "string option" "int option"
  | Login "string option" "string option"
  | Send_message email
  | Quit
  | Call_log_to_excel string string rat string
  | Call_send_email_alert string string

primrec is_transport :: "event \<Rightarrow> bool" where
  "is_transport (Print s) = False"
| "is_transport (Requests_get u p t) = False"
| "is_transport (SMTP h) = True"
| "is_transport (SMTP_SSL h p) = True"
| "is_transport (Login u p) = True"
| "is_transport (Send_message m) = True"
| "is_transport Quit = True"
| "is_transport (Call_log_to_excel f u d s) = False"
| "is_transport (Call_send_email_alert s b) = False"

text \<open>
  What the outside answers while one target is processed. Every call that can fail
  has its answer here (\<open>None\<close>: it succeeds; \<open>Some e\<close>: it raises an exception whose text
  is \<open>e\<close>), so a theorem about every \<open>world\<close> is a theorem about every pattern of
  failures.
\<close>

record response =
  status_code :: nat
  reason :: string
  response_url :: string

record world =
  time_before :: rat
  requests_get :: "string + response"
  time_after :: rat
  log_now :: string
  read_error :: "string option"
  write_error :: "string option"
  alert_now :: string
  environ_USER :: "string option"
  gethostname :: string
  connect_error :: "string option"
  login_error :: "string option"
  send_error :: "string option"

section \<open>The result store: \<open>log_to_excel\<close>\<close>

text \<open>
  A row of a sheet, with the four columns \<open>Timestamp\<close>, \<open>URL\<close>, \<open>Download Time (s)\<close> and
  \<open>Status\<close>; a data frame is the list of its rows and \<open>pd.concat\<close> with \<open>ignore_index\<close>
  appends them. A workbook is the list of its sheets, each with its name, in the order
  of the file; the names of a workbook are distinct, so the dictionary
  \<open>{sheet: xls.parse(sheet) for sheet in xls.sheet_names}\<close> is this list. A dictionary is
  an association list in insertion order: \<open>map_of\<close> looks a key up and \<open>AList.update\<close>
  assigns (in place for a key that is there, at the end for a new one).

  The file system is a map from paths to workbooks; \<open>os.path.exists\<close> asks whether the
  path is in its domain. Reading and writing a workbook are calls into \<open>pandas\<close>: they fail
  when the \<open>world\<close> says so, and a write that fails is taken to leave the file as it was.
\<close>

record row =
  Timestamp :: string
  URL :: string
  Download_Time :: string
  Status :: string

type_synonym data_frame = "row list"
type_synonym workbook = "(string \<times> data_frame) list"
type_synonym files = "string \<rightharpoonup> workbook"

definition to_excel :: "workbook \<Rightarrow> string \<times> data_frame \<Rightarrow> workbook" where
  "to_excel writer item = writer @ [item]"

text \<open>
  The body of the \<open>try\<close> statement of \<open>log_to_excel\<close>: \<open>Inl e\<close> when an exception with text
  \<open>e\<close> leaves it, \<open>Inr\<close> the file system after the write otherwise.
\<close>

definition log_to_excel_try ::
  "world \<Rightarrow> files \<Rightarrow> string \<Rightarrow> string \<Rightarrow> data_frame \<Rightarrow> string + files" where
  "log_to_excel_try w fs log_file sheet_name df_new_row =
     (case (case fs log_file of
              Some xls \<Rightarrow> (case read_error w of Some e \<Rightarrow> Inl e | None \<Rightarrow> Inr xls)
            | None \<Rightarrow> Inr []) of
        Inl e \<Rightarrow> Inl e
      | Inr sheets \<Rightarrow>
          (let sheets = (case map_of sheets sheet_name of
                           Some df \<Rightarrow> AList.update sheet_name (df @ df_new_row) sheets
                         | None \<Rightarrow> AList.update sheet_name df_new_row sheets)
           in case write_error w of
                Some e \<Rightarrow> Inl e
              | None \<Rightarrow> Inr (fs(log_file \<mapsto> foldl to_excel [] sheets))))"

definition log_to_excel ::
  "world \<Rightarrow> files \<Rightarrow> string \<Rightarrow> string \<Rightarrow> rat \<Rightarrow> string \<Rightarrow> files \<times> event list" where
  "log_to_excel w fs log_file url download_time status =
     (let sheet_name = sanitize_sheet_name url;
          df_new_row = [\<lparr>Timestamp = log_now w, URL = url,
                         Download_Time = format_4f download_time, Status = status\<rparr>]
      in case log_to_excel_try w fs log_file sheet_name df_new_row of
           Inr fs' \<Rightarrow> (fs', [])
         | Inl e \<Rightarrow> (fs, [Print (''Error writing to log file '' @ log_file @ '': '' @ e)]))"

section \<open>The probe: \<open>check_proxy_speed\<close>\<close>

text \<open>
  \<open>requests.get\<close> either raises a \<open>RequestException\<close> (connection error, DNS failure,
  timeout; \<open>Inl\<close> its text) or returns a response, and \<open>response.raise_for_status()\<close>
  raises an \<open>HTTPError\<close>, which is a \<open>RequestException\<close>, for a status code from 400 to 599.
\<close>

definition raise_for_status :: "response \<Rightarrow> string option" where
  "raise_for_status r =
     (if 400 \<le> status_code r \<and> status_code r < 500
        then Some (str_nat (status_code r) @ '' Client Error: '' @ reason r @
                   '' for url: '' @ response_url r)
      else if 500 \<le> status_code r \<and> status_code r < 600
        then Some (str_nat (status_code r) @ '' Server Error: '' @ reason r @
                   '' for url: '' @ response_url r)
      else None)"

text \<open>The result is \<open>None\<close> when the probe failed, \<open>Some\<close> the seconds it took otherwise.\<close>

definition check_proxy_speed ::
  "world \<Rightarrow> string \<Rightarrow> (string \<times> string) list \<Rightarrow> rat option \<times> event list" where
  "check_proxy_speed w url proxy =
     (let start_time = time_before w
      in case requests_get w of
           Inl e \<Rightarrow>
             (None, [Requests_get url proxy 30,
                     Print (''Error connecting to '' @ url @ '' via proxy: '' @ e)])
         | Inr response \<Rightarrow>
             (case raise_for_status response of
                Some e \<Rightarrow>
                  (None, [Requests_get url proxy 30,
                          Print (''Error connecting to '' @ url @ '' via proxy: '' @ e)])
              | None \<Rightarrow>
                  (let end_time = time_after w
                   in (Some (end_time - start_time), [Requests_get url proxy 30]))))"

section \<open>The configuration\<close>

text \<open>
  The namespace that \<open>argparse\<close> hands to the pipeline, with the types the parser
  declares; an option that was given nowhere is \<open>None\<close>. Python's truth value of such a
  field: \<open>None\<close>, the empty string, 0 and the empty list are false.
\<close>

record args =
  host :: "string option"
  port :: "int option"
  websites :: "string list option"
  log_file :: "string option"
  recipient_email :: "string option"
  use_local_mta :: bool
  smtp_server :: "string option"
  smtp_port :: "int option"
  smtp_user :: "string option"
  smtp_password :: "string option"

definition truthy :: "'a list option \<Rightarrow> bool" where
  "truthy x = (case x of None \<Rightarrow> False | Some s \<Rightarrow> s \<noteq> [])"

definition truthy_int :: "int option \<Rightarrow> bool" where
  "truthy_int x = (case x of None \<Rightarrow> False | Some n \<Rightarrow> n \<noteq> 0)"

text \<open>A field inside an f-string: \<open>None\<close> prints as \<open>None\<close>.\<close>

definition fmt :: "string option \<Rightarrow> string" where
  "fmt x = (case x of None \<Rightarrow> ''None'' | Some s \<Rightarrow> s)"

definition fmt_int :: "int option \<Rightarrow> string" where
  "fmt_int x = (case x of None \<Rightarrow> ''None'' | Some n \<Rightarrow> str_int n)"

section \<open>The alert: \<open>send_email_alert\<close>\<close>

text \<open>
  The body of the \<open>try\<close> statement of \<open>send_email_alert\<close>, with the transport calls it makes
  in order. The first component is \<open>Some e\<close> when an exception with text \<open>e\<close> leaves
  it. The constructor of \<open>smtplib.SMTP\<close> connects; leaving the \<open>with\<close> block closes the
  session (\<open>Quit\<close>), also when a call inside it raised. The fields of the namespace
  are passed to the transport as they are.
\<close>

definition send_email_alert_try :: "args \<Rightarrow> world \<Rightarrow> email \<Rightarrow> string option \<times> event list" where
  "send_email_alert_try a w msg =
     (if use_local_mta a then
        (let user = (case environ_USER w of
                       Some u \<Rightarrow> if u \<noteq> [] then u else ''proxy-monitor''
                     | None \<Rightarrow> ''proxy-monitor'');
             hostname = gethostname w;
             msg = msg\<lparr>From := Some (user @ ''@'' @ hostname)\<rparr>
         in case connect_error w of
              Some e \<Rightarrow> (Some e, [SMTP ''localhost''])
            | None \<Rightarrow>
                (case send_error w of
                   Some e \<Rightarrow> (Some e, [SMTP ''localhost'', Send_message msg, Quit])
                 | None \<Rightarrow>
                     (None, [SMTP ''localhost'', Send_message msg, Quit,
                             Print ''Email alert sent successfully via local MTA.''])))
      else if \<not> (truthy (smtp_server a) \<and> truthy_int (smtp_port a) \<and>
                  truthy (smtp_user a) \<and> truthy (smtp_password a)) then
        (None, [Print ''External SMTP server configuration is not complete. Skipping email alert.''])
      else
        (let msg = msg\<lparr>From := smtp_user a\<rparr>;
             connect = SMTP_SSL (smtp_server a) (smtp_port a);
             login = Login (smtp_user a) (smtp_password a)
         in case connect_error w of
              Some e \<Rightarrow> (Some e, [connect])
            | None \<Rightarrow>
                (case login_error w of
                   Some e \<Rightarrow> (Some e, [connect, login, Quit])
                 | None \<Rightarrow>
                     (case send_error w of
                        Some e \<Rightarrow> (Some e, [connect, login, Send_message msg, Quit])
                      | None \<Rightarrow>
                          (None, [connect, login, Send_message msg, Quit,
                                  Print ''Email alert sent successfully via external SMTP.''])))))"

definition send_email_alert :: "args \<Rightarrow> world \<Rightarrow> string \<Rightarrow> string \<Rightarrow> event list" where
  "send_email_alert a w subject body =
     (if \<not> truthy (recipient_email a) then
        [Print ''Recipient email not configured. Skipping email alert.'']
      else
        (let msg = \<lparr>Body = body, Subject = Some subject, To = recipient_email a, From = None\<rparr>
         in case send_email_alert_try a w msg of
              (None, evs) \<Rightarrow> evs
            | (Some e, evs) \<Rightarrow> evs @ [Print (''Failed to send email alert: '' @ e)]))"

section \<open>The monitor: \<open>main\<close>\<close>

text \<open>
  The body of the \<open>for\<close> loop of \<open>main\<close> for one website: the file system after it and
  what it did. \<open>path\<close> is \<open>args.log_file\<close> and \<open>proxies\<close> the dictionary built before the loop.
\<close>

definition main_loop_body ::
  "args \<Rightarrow> world \<Rightarrow> string \<Rightarrow> (string \<times> string) list \<Rightarrow> files \<Rightarrow> string \<Rightarrow> files \<times> event list"
  where
  "main_loop_body a w path proxies fs website =
     (let checking = Print (''Checking '' @ website @ '' through proxy '' @ fmt (host a) @ ''...'');
          (download_time, probe) = check_proxy_speed w website proxies
      in case download_time of
           Some t \<Rightarrow>
             (let (fs', logged) = log_to_excel w fs path website t ''UP''
              in (fs', checking # probe @
                       [Print (''Successfully connected to '' @ website @ ''. Download time: '' @
                               format_4f t @ '' seconds.''),
                        Call_log_to_excel path website t ''UP''] @ logged))
         | None \<Rightarrow>
             (let (fs', logged) = log_to_excel w fs path website 0 ''DOWN'';
                  subject = ''Proxy Server Down Alert!'';
                  body = ''The proxy server at '' @ fmt (host a) @ '':'' @ fmt_int (port a) @
                         '' seems to be down.'' @ [CHR 0x0A] @
                         ''Failed to connect to '' @ website @ '' at '' @ alert_now w @ ''.'' @
                         [CHR 0x0A] @ ''Please check the proxy server status.''
              in (fs', checking # probe @
                       [Print (''Failed to connect to '' @ website @ '' through the proxy.''),
                        Call_log_to_excel path website 0 ''DOWN''] @ logged @
                       [Call_send_email_alert subject body] @
                       send_email_alert a w subject body)))"

text \<open>
  The loop over \<open>args.websites\<close>; the \<open>i\<close>-th website (counted from 0) is processed in the
  world \<open>ws i\<close>.
\<close>

fun main_loop ::
  "args \<Rightarrow> (nat \<Rightarrow> world) \<Rightarrow> nat \<Rightarrow> string \<Rightarrow> (string \<times> string) list \<Rightarrow> files \<Rightarrow> string list \<Rightarrow>
   files \<times> event list" where
  "main_loop a ws i path proxies fs [] = (fs, [])"
| "main_loop a ws i path proxies fs (website # rest) =
     (let (fs', evs) = main_loop_body a (ws i) path proxies fs website;
          (fs'', evs') = main_loop a ws (Suc i) path proxies fs' rest
      in (fs'', evs @ evs'))"

text \<open>
  \<^verbatim>\<open>
  proxy_url = f"http://{args.host}:{args.port}"
  proxies = {"http": proxy_url, "https": proxy_url}
  \<close>
\<close>

definition proxies :: "args \<Rightarrow> (string \<times> string) list" where
  "proxies a =
     (let proxy_url = ''http://'' @ fmt (host a) @ '':'' @ fmt_int (port a)
      in [(''http'', proxy_url), (''https'', proxy_url)])"

text \<open>
  \<open>main\<close> from the parsed arguments on. \<open>parser.error\<close> prints the message and leaves the
  process (\<open>Inl\<close> the message), before any target is processed. Behind the check the
  required fields are not \<open>None\<close>, and \<open>the\<close> reads them.
\<close>

definition main :: "args \<Rightarrow> (nat \<Rightarrow> world) \<Rightarrow> files \<Rightarrow> string + files \<times> event list" where
  "main a ws fs =
     (if \<not> (truthy (host a) \<and> truthy_int (port a) \<and> truthy (websites a) \<and> truthy (log_file a))
      then Inl (''Missing required arguments. Please provide them via command line or a config file: '' @
                ''--proxy-host, --proxy-port, --websites, --log-file'')
      else
        Inr (main_loop a ws 0 (the (log_file a)) (proxies a) fs (the (websites a))))"

section \<open>What the specification says, and what is observed of a run\<close>

text \<open>The replacement of one character: an invalid character becomes an underscore.\<close>

definition underscore :: "char \<Rightarrow> char" where
  "underscore c = (if c \<in> set invalid_chars then CHR ''_'' else c)"

text \<open>
  The key as the specification words it: a leading \<open>https://\<close>, then a leading
  \<open>http://\<close>, then a leading \<open>www.\<close> is stripped, every invalid character is replaced,
  and the result is cut to 31 characters.
\<close>

definition strip_leading :: "string \<Rightarrow> string \<Rightarrow> string" where
  "strip_leading p s = (if startswith s p then drop (length p) s else s)"

definition sanitize_spec :: "string \<Rightarrow> string" where
  "sanitize_spec url =
     take 31 (map underscore
       (strip_leading ''www.'' (strip_leading ''http://'' (strip_leading ''https://'' url))))"

text \<open>
  The key with every occurrence deleted, wherever it stands: \<open>delete_all p s\<close> scans \<open>s\<close>
  from the left and drops each occurrence of \<open>p\<close> it meets.
\<close>

function delete_all :: "string \<Rightarrow> string \<Rightarrow> string" where
  "delete_all p [] = []"
| "delete_all p (c # cs) =
     (if p \<noteq> [] \<and> startswith (c # cs) p then delete_all p (drop (length p) (c # cs))
      else c # delete_all p cs)"
  by pat_completeness auto
termination
  by (relation "measure (\<lambda>(p, s). length s)") auto

definition sanitize_all :: "string \<Rightarrow> string" where
  "sanitize_all url =
     take 31 (map underscore
       (delete_all ''www.'' (delete_all ''http://'' (delete_all ''https://'' url))))"

text \<open>
  The partition of a key in the store at \<open>path\<close> (\<open>None\<close> when the store or the partition
  is not there), and its history: the rows of the partition, none when it is not there.
\<close>

definition partition_of :: "files \<Rightarrow> string \<Rightarrow> string \<Rightarrow> data_frame option" where
  "partition_of fs path key = (case fs path of None \<Rightarrow> None | Some sheets \<Rightarrow> map_of sheets key)"

definition history :: "files \<Rightarrow> string \<Rightarrow> string \<Rightarrow> row list" where
  "history fs path key = (case partition_of fs path key of None \<Rightarrow> [] | Some df \<Rightarrow> df)"

text \<open>The row that \<open>log_to_excel\<close> builds from its arguments.\<close>

definition new_row :: "world \<Rightarrow> string \<Rightarrow> rat \<Rightarrow> string \<Rightarrow> row" where
  "new_row w url download_time status =
     \<lparr>Timestamp = log_now w, URL = url, Download_Time = format_4f download_time,
      Status = status\<rparr>"

text \<open>
  A sequence of calls of \<open>log_to_excel\<close> for one target, each in its own world and with
  its own outcome; and the worlds in which the store can be read and written.
\<close>

definition appends :: "files \<Rightarrow> string \<Rightarrow> string \<Rightarrow> (world \<times> rat \<times> string) list \<Rightarrow> files" where
  "appends fs path url calls =
     foldl (\<lambda>fs (w, download_time, status). fst (log_to_excel w fs path url download_time status))
       fs calls"

definition store_ok :: "world \<Rightarrow> bool" where
  "store_ok w = (read_error w = None \<and> write_error w = None)"

text \<open>A world in which nothing fails and the probe is answered with status 200.\<close>

definition calm :: world where
  "calm = \<lparr>time_before = 10, requests_get = Inr \<lparr>status_code = 200, reason = ''OK'',
                                                   response_url = ''https://ok.example/''\<rparr>,
           time_after = 41 / 4, log_now = ''2024-05-01T12:00:00.000000'',
           read_error = None, write_error = None,
           alert_now = ''2024-05-01T12:00:01.000000'', environ_USER = Some ''monitor'',
           gethostname = ''probe01'', connect_error = None, login_error = None,
           send_error = None\<rparr>"

text \<open>A world in which the probe times out and everything else works.\<close>

definition stormy :: world where
  "stormy = calm\<lparr>requests_get := Inl ''Read timed out. (read timeout=30)''\<rparr>"

text \<open>
  A world in which the probe times out, the store cannot be written and the mail relay
  refuses the connection.
\<close>

definition havoc :: world where
  "havoc = stormy\<lparr>write_error := Some ''Permission denied'',
                     connect_error := Some ''Connection refused''\<rparr>"

text \<open>
  The sender of local-relay mode: the OS user (\<open>proxy-monitor\<close> when \<open>USER\<close> is not set
  or empty), an \<open>@\<close> and the host name.
\<close>

definition local_sender :: "world \<Rightarrow> string" where
  "local_sender w =
     (case environ_USER w of
        Some u \<Rightarrow> if u \<noteq> [] then u else ''proxy-monitor''
      | None \<Rightarrow> ''proxy-monitor'') @ ''@'' @ gethostname w"

text \<open>The events of a trace that are probes, calls of the store and calls of the alert.\<close>

definition is_request :: "event \<Rightarrow> bool" where
  "is_request e = (case e of Requests_get u p t \<Rightarrow> True | _ \<Rightarrow> False)"

definition is_log_call :: "event \<Rightarrow> bool" where
  "is_log_call e = (case e of Call_log_to_excel f u d s \<Rightarrow> True | _ \<Rightarrow> False)"

definition is_alert_call :: "event \<Rightarrow> bool" where
  "is_alert_call e = (case e of Call_send_email_alert s b \<Rightarrow> True | _ \<Rightarrow> False)"

text \<open>The text of the alert for a website that was found down in the world \<open>w\<close>.\<close>

definition alert_body :: "args \<Rightarrow> world \<Rightarrow> string \<Rightarrow> string" where
  "alert_body a w website =
     ''The proxy server at '' @ fmt (host a) @ '':'' @ fmt_int (port a) @ '' seems to be down.'' @
     [CHR 0x0A] @ ''Failed to connect to '' @ website @ '' at '' @ alert_now w @ ''.'' @
     [CHR 0x0A] @ ''Please check the proxy server status.''"

text \<open>
  The outcome of the probe of a website in the world \<open>w\<close>, as the call of the store that
  records it and as the row that the call builds.
\<close>

definition outcome_call :: "world \<Rightarrow> (string \<times> string) list \<Rightarrow> string \<Rightarrow> string \<Rightarrow> event" where
  "outcome_call w p path website =
     (case fst (check_proxy_speed w website p) of
        Some t \<Rightarrow> Call_log_to_excel path website t ''UP''
      | None \<Rightarrow> Call_log_to_excel path website 0 ''DOWN'')"

definition outcome_row :: "world \<Rightarrow> (string \<times> string) list \<Rightarrow> string \<Rightarrow> row" where
  "outcome_row w p website =
     (case fst (check_proxy_speed w website p) of
        Some t \<Rightarrow> new_row w website t ''UP''
      | None \<Rightarrow> new_row w website 0 ''DOWN'')"

text \<open>
  A complete configuration with two targets in local-relay mode, and the same in remote
  mode without a password.
\<close>

definition demo :: args where
  "demo = \<lparr>host = Some ''10.0.0.1'', port = Some 3128,
           websites = Some [''https://a.example'', ''https://b.example/x''],
           log_file = Some ''log.xlsx'', recipient_email = Some ''ops@example.org'',
           use_local_mta = True, smtp_server = Some ''smtp.example.org'', smtp_port = Some 465,
           smtp_user = Some ''alerts'', smtp_password = Some ''secret''\<rparr>"

definition remote :: args where
  "remote = demo\<lparr>use_local_mta := False, smtp_password := None\<rparr>"

section \<open>The partition key\<close>

lemma replace_char: "replace [c] [d] s = map (\<lambda>x. if x = c then d else x) s"
  by (induction s) auto

lemma foldl_replace_chars:
  "d \<notin> set cs \<Longrightarrow>
   foldl (\<lambda>name char. replace [char] [d] name) s cs = map (\<lambda>x. if x \<in> set cs then d else x) s"
proof (induction cs arbitrary: s)
  case Nil
  then show ?case by simp
next
  case (Cons a cs)
  then show ?case by (auto simp: replace_char)
qed

lemma underscore_valid: "CHR ''_'' \<notin> set invalid_chars"
  by (simp add: invalid_chars_def)

lemma sanitize_sheet_name_map:
  "sanitize_sheet_name url =
   take 31 (map underscore
     (replace ''www.'' '''' (replace ''http://'' '''' (replace ''https://'' '''' url))))"
  unfolding sanitize_sheet_name_def Let_def
  by (simp add: foldl_replace_chars [OF underscore_valid] underscore_def [abs_def])

lemma replace_delete_all: "p \<noteq> [] \<Longrightarrow> replace p [] s = delete_all p s"
  by (induction p s rule: delete_all.induct) auto

text \<open>
  Claim C1, as stated: the key is the one the specification words, for every URL.
  It is not: the code deletes \<open>www.\<close> (and the two schemes) wherever they stand, not only
  at the front. For \<open>https://example.com/www.html\<close> the code gives \<open>example.com_html\<close>, the
  stripping of leading occurrences gives \<open>example.com_www.html\<close>.
\<close>

theorem sanitize_not_leading_only:
  "sanitize_sheet_name ''https://example.com/www.html'' = ''example.com_html'' \<and>
   sanitize_spec ''https://example.com/www.html'' = ''example.com_www.html''"
  by (simp add: sanitize_sheet_name_map sanitize_spec_def strip_leading_def underscore_def
      invalid_chars_def)

text \<open>
  Claim C1, amended: for every URL the key is obtained by deleting every occurrence of
  \<open>https://\<close>, then every occurrence of \<open>http://\<close>, then every occurrence of \<open>www.\<close>,
  wherever in the URL they stand, replacing each of the characters \<open>[ ] / \ ? * :\<close> by an
  underscore and cutting the result to at most 31 characters.
\<close>

theorem sanitize_sheet_name_deletes_all: "sanitize_sheet_name url = sanitize_all url"
  by (simp add: sanitize_sheet_name_map sanitize_all_def replace_delete_all)

text \<open>
  Claim C9: the key of a URL has at most 31 characters and none of them is one of
  \<open>[ ] / \ ? * :\<close>. The key is a function of the URL alone (\<open>sanitize_sheet_name\<close> reads
  nothing but its argument), so two calls with the same URL give the same key.
\<close>

theorem sanitize_sheet_name_valid:
  "length (sanitize_sheet_name url) \<le> 31 \<and>
   set (sanitize_sheet_name url) \<inter> set invalid_chars = {}"
proof -
  have "set (map underscore s) \<inter> set invalid_chars = {}" for s
    using underscore_valid by (auto simp: underscore_def)
  moreover have "set (take 31 s) \<subseteq> set s" for s :: string
    by (rule set_take_subset)
  ultimately have "set (sanitize_sheet_name url) \<inter> set invalid_chars = {}"
    unfolding sanitize_sheet_name_map by blast
  then show ?thesis by (simp add: sanitize_sheet_name_map)
qed

section \<open>The result store\<close>

lemma foldl_to_excel: "foldl to_excel acc sheets = acc @ sheets"
  by (induction sheets arbitrary: acc) (simp_all add: to_excel_def)

lemma format_4f_zero: "format_4f 0 = ''0.0000''"
  by (simp add: format_4f_def round_half_even_def digit_def str_nat.simps)

lemma log_to_excel_written:
  assumes "fs path = None \<or> read_error w = None" and "write_error w = None"
  shows "fst (log_to_excel w fs path url t st) =
         fs(path \<mapsto> AList.update (sanitize_sheet_name url)
               (history fs path (sanitize_sheet_name url) @ [new_row w url t st])
               (case fs path of None \<Rightarrow> [] | Some sheets \<Rightarrow> sheets))"
  using assms
  by (auto simp: log_to_excel_def log_to_excel_try_def Let_def foldl_to_excel history_def
      partition_of_def new_row_def split: option.splits)

lemma log_to_excel_failed:
  assumes "(fs path \<noteq> None \<and> read_error w \<noteq> None) \<or> write_error w \<noteq> None"
  shows "fst (log_to_excel w fs path url t st) = fs"
  using assms
  by (auto simp: log_to_excel_def log_to_excel_try_def Let_def split: option.splits)

lemma history_log_to_excel:
  assumes "fs path = None \<or> read_error w = None" and "write_error w = None"
  shows "history (fst (log_to_excel w fs path url t st)) path (sanitize_sheet_name url) =
         history fs path (sanitize_sheet_name url) @ [new_row w url t st]"
  using assms by (simp add: log_to_excel_written history_def partition_of_def update_conv')

lemma partition_log_to_excel_other:
  assumes "key \<noteq> sanitize_sheet_name url"
  shows "partition_of (fst (log_to_excel w fs path url t st)) path key = partition_of fs path key"
proof (cases "(fs path = None \<or> read_error w = None) \<and> write_error w = None")
  case True
  then show ?thesis using assms
    by (auto simp: log_to_excel_written partition_of_def update_conv' split: option.splits)
next
  case False
  then show ?thesis by (simp add: log_to_excel_failed)
qed

text \<open>
  Claim C4: whatever the store holds at the start and whatever the target, \<open>N\<close> calls of
  \<open>log_to_excel\<close> for that target, each of which can read and write the store, leave the
  partition of the target's key with its old rows followed by the \<open>N\<close> new rows in the
  order of the calls, and leave every other partition as it was.
\<close>

theorem appends_extend_own_partition_only:
  assumes "\<forall>(w, t, st) \<in> set calls. store_ok w"
  shows "history (appends fs path url calls) path (sanitize_sheet_name url) =
           history fs path (sanitize_sheet_name url) @ map (\<lambda>(w, t, st). new_row w url t st) calls
         \<and> (\<forall>key. key \<noteq> sanitize_sheet_name url \<longrightarrow>
               partition_of (appends fs path url calls) path key = partition_of fs path key)"
  using assms
proof (induction calls arbitrary: fs)
  case Nil
  then show ?case by (simp add: appends_def)
next
  case (Cons c calls)
  obtain w t st where c: "c = (w, t, st)" by (cases c)
  let ?fs = "fst (log_to_excel w fs path url t st)"
  have ok: "store_ok w" using Cons.prems c by simp
  have step: "appends fs path url (c # calls) = appends ?fs path url calls"
    by (simp add: appends_def c)
  have IH: "history (appends ?fs path url calls) path (sanitize_sheet_name url) =
           history ?fs path (sanitize_sheet_name url) @ map (\<lambda>(w, t, st). new_row w url t st) calls
         \<and> (\<forall>key. key \<noteq> sanitize_sheet_name url \<longrightarrow>
               partition_of (appends ?fs path url calls) path key = partition_of ?fs path key)"
    using Cons.IH [of ?fs] Cons.prems by simp
  show ?case
    unfolding step using IH ok
    by (simp add: c history_log_to_excel partition_log_to_excel_other store_ok_def)
qed

theorem appends_extend_own_partition_only_witness:
  "store_ok calm \<and>
   history (appends [''log.xlsx'' \<mapsto> [(''other.example'', [])]] ''log.xlsx'' ''https://ok.example''
              [(calm, 1 / 4, ''UP''), (calm, 0, ''DOWN'')]) ''log.xlsx'' ''ok.example'' =
     [\<lparr>Timestamp = ''2024-05-01T12:00:00.000000'', URL = ''https://ok.example'',
       Download_Time = ''0.2500'', Status = ''UP''\<rparr>,
      \<lparr>Timestamp = ''2024-05-01T12:00:00.000000'', URL = ''https://ok.example'',
       Download_Time = ''0.0000'', Status = ''DOWN''\<rparr>] \<and>
   partition_of (appends [''log.xlsx'' \<mapsto> [(''other.example'', [])]] ''log.xlsx''
                   ''https://ok.example'' [(calm, 1 / 4, ''UP''), (calm, 0, ''DOWN'')])
     ''log.xlsx'' ''other.example'' = Some []"
proof -
  have ok: "\<forall>(w, t, st) \<in> set [(calm, 1 / 4 :: rat, ''UP''), (calm, 0, ''DOWN'')]. store_ok w"
    by (simp add: store_ok_def calm_def)
  have key: "sanitize_sheet_name ''https://ok.example'' = ''ok.example''"
    by (simp add: sanitize_sheet_name_map underscore_def invalid_chars_def)
  show ?thesis
    using appends_extend_own_partition_only [OF ok, of "[''log.xlsx'' \<mapsto> [(''other.example'', [])]]"
        "''log.xlsx''" "''https://ok.example''"] ok
    by (simp add: key history_def partition_of_def new_row_def calm_def
        format_4f_def round_half_even_def digit_def str_nat.simps)
qed

text \<open>
  Claim C8: when nothing exists at the path and the write succeeds, the store after one
  call of \<open>log_to_excel\<close> has exactly one partition, under the target's key, and it holds
  exactly the new row.
\<close>

theorem log_to_excel_creates_store:
  assumes "fs path = None" and "write_error w = None"
  shows "fst (log_to_excel w fs path url t st) path =
         Some [(sanitize_sheet_name url, [new_row w url t st])]"
  using assms by (simp add: log_to_excel_written history_def partition_of_def)

theorem log_to_excel_creates_store_witness:
  "Map.empty ''log.xlsx'' = (None :: workbook option) \<and> write_error calm = None \<and>
   fst (log_to_excel calm Map.empty ''log.xlsx'' ''https://ok.example'' (1 / 4) ''UP'') ''log.xlsx'' =
     Some [(''ok.example'',
            [\<lparr>Timestamp = ''2024-05-01T12:00:00.000000'', URL = ''https://ok.example'',
              Download_Time = ''0.2500'', Status = ''UP''\<rparr>])]"
  using log_to_excel_creates_store
    [of Map.empty "''log.xlsx''" calm "''https://ok.example''" "1 / 4" "''UP''"]
  by (simp add: calm_def new_row_def sanitize_sheet_name_map underscore_def invalid_chars_def
      format_4f_def round_half_even_def digit_def str_nat.simps)

section \<open>The probe and the loop of \<open>main\<close>\<close>

lemma check_proxy_speed_events:
  "filter is_request (snd (check_proxy_speed w u p)) = [Requests_get u p 30]"
  "filter is_log_call (snd (check_proxy_speed w u p)) = []"
  "filter is_alert_call (snd (check_proxy_speed w u p)) = []"
  by (simp_all add: check_proxy_speed_def is_request_def is_log_call_def is_alert_call_def Let_def
      split: sum.splits option.splits)

lemma log_to_excel_events:
  "filter is_request (snd (log_to_excel w fs path u t st)) = []"
  "filter is_log_call (snd (log_to_excel w fs path u t st)) = []"
  "filter is_alert_call (snd (log_to_excel w fs path u t st)) = []"
  by (simp_all add: log_to_excel_def is_request_def is_log_call_def is_alert_call_def Let_def
      split: sum.splits)

lemma send_email_alert_try_events:
  "filter is_request (snd (send_email_alert_try a w msg)) = []"
  "filter is_log_call (snd (send_email_alert_try a w msg)) = []"
  "filter is_alert_call (snd (send_email_alert_try a w msg)) = []"
  by (simp_all add: send_email_alert_try_def is_request_def is_log_call_def is_alert_call_def Let_def
      split: option.splits)

lemma send_email_alert_events:
  "filter is_request (send_email_alert a w subject body) = []"
  "filter is_log_call (send_email_alert a w subject body) = []"
  "filter is_alert_call (send_email_alert a w subject body) = []"
proof -
  let ?msg = "\<lparr>Body = body, Subject = Some subject, To = recipient_email a, From = None\<rparr>"
  have eq: "send_email_alert a w subject body =
        (if \<not> truthy (recipient_email a)
         then [Print ''Recipient email not configured. Skipping email alert.'']
         else snd (send_email_alert_try a w ?msg) @
              (case fst (send_email_alert_try a w ?msg) of
                 None \<Rightarrow> [] | Some e \<Rightarrow> [Print (''Failed to send email alert: '' @ e)]))"
    by (simp add: send_email_alert_def Let_def split: prod.splits option.splits)
  show "filter is_request (send_email_alert a w subject body) = []"
    unfolding eq by (simp add: send_email_alert_try_events is_request_def split: option.splits)
  show "filter is_log_call (send_email_alert a w subject body) = []"
    unfolding eq by (simp add: send_email_alert_try_events is_log_call_def split: option.splits)
  show "filter is_alert_call (send_email_alert a w subject body) = []"
    unfolding eq by (simp add: send_email_alert_try_events is_alert_call_def split: option.splits)
qed

lemma main_loop_body_up:
  assumes "fst (check_proxy_speed w u p) = Some t"
  shows "main_loop_body a w path p fs u =
     (fst (log_to_excel w fs path u t ''UP''),
      Print (''Checking '' @ u @ '' through proxy '' @ fmt (host a) @ ''...'') #
      snd (check_proxy_speed w u p) @
      [Print (''Successfully connected to '' @ u @ ''. Download time: '' @ format_4f t @
              '' seconds.''),
       Call_log_to_excel path u t ''UP''] @
      snd (log_to_excel w fs path u t ''UP''))"
  by (simp add: main_loop_body_def Let_def split_beta assms)

lemma main_loop_body_down:
  assumes "fst (check_proxy_speed w u p) = None"
  shows "main_loop_body a w path p fs u =
     (fst (log_to_excel w fs path u 0 ''DOWN''),
      Print (''Checking '' @ u @ '' through proxy '' @ fmt (host a) @ ''...'') #
      snd (check_proxy_speed w u p) @
      [Print (''Failed to connect to '' @ u @ '' through the proxy.''),
       Call_log_to_excel path u 0 ''DOWN''] @
      snd (log_to_excel w fs path u 0 ''DOWN'') @
      [Call_send_email_alert ''Proxy Server Down Alert!'' (alert_body a w u)] @
      send_email_alert a w ''Proxy Server Down Alert!'' (alert_body a w u))"
  by (simp add: main_loop_body_def alert_body_def Let_def split_beta assms)

lemma body_requests:
  "filter is_request (snd (main_loop_body a w path p fs u)) = [Requests_get u p 30]"
proof (cases "fst (check_proxy_speed w u p)")
  case None
  show ?thesis
    by (simp add: main_loop_body_down [OF None] check_proxy_speed_events log_to_excel_events
        send_email_alert_events) (simp add: is_request_def)
next
  case (Some t)
  show ?thesis
    by (simp add: main_loop_body_up [OF Some] check_proxy_speed_events log_to_excel_events)
       (simp add: is_request_def)
qed

lemma body_log_calls:
  "filter is_log_call (snd (main_loop_body a w path p fs u)) = [outcome_call w p path u]"
proof (cases "fst (check_proxy_speed w u p)")
  case None
  show ?thesis
    by (simp add: main_loop_body_down [OF None] check_proxy_speed_events log_to_excel_events
        send_email_alert_events outcome_call_def None) (simp add: is_log_call_def)
next
  case (Some t)
  show ?thesis
    by (simp add: main_loop_body_up [OF Some] check_proxy_speed_events log_to_excel_events
        outcome_call_def Some) (simp add: is_log_call_def)
qed

lemma body_alert_calls:
  "filter is_alert_call (snd (main_loop_body a w path p fs u)) =
     (if fst (check_proxy_speed w u p) = None
      then [Call_send_email_alert ''Proxy Server Down Alert!'' (alert_body a w u)] else [])"
proof (cases "fst (check_proxy_speed w u p)")
  case None
  show ?thesis
    by (simp add: main_loop_body_down [OF None] check_proxy_speed_events log_to_excel_events
        send_email_alert_events None) (simp add: is_alert_call_def)
next
  case (Some t)
  show ?thesis
    by (simp add: main_loop_body_up [OF Some] check_proxy_speed_events log_to_excel_events Some)
       (simp add: is_alert_call_def)
qed

lemma check_proxy_speed_down:
  assumes "requests_get w = Inl e \<or>
           (requests_get w = Inr r \<and> 400 \<le> status_code r \<and> status_code r < 600)"
  shows "fst (check_proxy_speed w u p) = None"
  using assms by (auto simp: check_proxy_speed_def raise_for_status_def Let_def)

lemma log_to_excel_keeps:
  "set (history fs path key) \<subseteq> set (history (fst (log_to_excel w fs path u t st)) path key)"
proof (cases "(fs path = None \<or> read_error w = None) \<and> write_error w = None")
  case True
  show ?thesis
  proof (cases "key = sanitize_sheet_name u")
    case True
    with \<open>(fs path = None \<or> read_error w = None) \<and> write_error w = None\<close> show ?thesis
      by (auto simp: history_log_to_excel)
  next
    case False
    then show ?thesis by (simp add: history_def partition_log_to_excel_other)
  qed
next
  case False
  then show ?thesis by (simp add: log_to_excel_failed)
qed

lemma body_files:
  "fst (main_loop_body a w path p fs u) =
     (case fst (check_proxy_speed w u p) of
        Some t \<Rightarrow> fst (log_to_excel w fs path u t ''UP'')
      | None \<Rightarrow> fst (log_to_excel w fs path u 0 ''DOWN''))"
  by (cases "fst (check_proxy_speed w u p)") (simp_all add: main_loop_body_up main_loop_body_down)

lemma body_keeps:
  "set (history fs path key) \<subseteq> set (history (fst (main_loop_body a w path p fs u)) path key)"
  by (simp add: body_files log_to_excel_keeps split: option.splits)

lemma body_records:
  assumes "store_ok w"
  shows "history (fst (main_loop_body a w path p fs u)) path (sanitize_sheet_name u) =
         history fs path (sanitize_sheet_name u) @ [outcome_row w p u]"
  using assms
  by (simp add: body_files outcome_row_def store_ok_def history_log_to_excel split: option.splits)

lemma main_loop_Cons:
  "main_loop a ws i path p fs (u # rest) =
     (fst (main_loop a ws (Suc i) path p (fst (main_loop_body a (ws i) path p fs u)) rest),
      snd (main_loop_body a (ws i) path p fs u) @
      snd (main_loop a ws (Suc i) path p (fst (main_loop_body a (ws i) path p fs u)) rest))"
  by (simp add: split_beta Let_def)

lemma main_loop_requests:
  "filter is_request (snd (main_loop a ws i path p fs targets)) =
     map (\<lambda>u. Requests_get u p 30) targets"
  by (induction targets arbitrary: i fs) (simp_all add: main_loop_Cons body_requests del: main_loop.simps(2))

lemma main_loop_log_calls:
  "filter is_log_call (snd (main_loop a ws i path p fs targets)) =
     map (\<lambda>(j, u). outcome_call (ws j) p path u) (zip [i..<i + length targets] targets)"
proof (induction targets arbitrary: i fs)
  case Nil
  then show ?case by simp
next
  case (Cons u rest)
  have "[i..<i + length (u # rest)] = i # [Suc i..<Suc i + length rest]"
    using upt_conv_Cons [of i "i + length (u # rest)"] by simp
  then show ?case
    by (simp add: main_loop_Cons body_log_calls Cons.IH del: main_loop.simps(2))
qed

lemma main_loop_alert_calls:
  "filter is_alert_call (snd (main_loop a ws i path p fs targets)) =
     map (\<lambda>(j, u). Call_send_email_alert ''Proxy Server Down Alert!'' (alert_body a (ws j) u))
       (filter (\<lambda>(j, u). fst (check_proxy_speed (ws j) u p) = None)
          (zip [i..<i + length targets] targets))"
proof (induction targets arbitrary: i fs)
  case Nil
  then show ?case by simp
next
  case (Cons u rest)
  have "[i..<i + length (u # rest)] = i # [Suc i..<Suc i + length rest]"
    using upt_conv_Cons [of i "i + length (u # rest)"] by simp
  then show ?case
    by (simp add: main_loop_Cons body_alert_calls Cons.IH del: main_loop.simps(2))
qed

lemma main_loop_keeps:
  "set (history fs path key) \<subseteq> set (history (fst (main_loop a ws i path p fs targets)) path key)"
proof (induction targets arbitrary: i fs)
  case Nil
  then show ?case by simp
next
  case (Cons u rest)
  have "set (history fs path key) \<subseteq>
        set (history (fst (main_loop_body a (ws i) path p fs u)) path key)"
    by (rule body_keeps)
  also have "\<dots> \<subseteq> set (history (fst (main_loop a ws i path p fs (u # rest))) path key)"
    by (simp add: main_loop_Cons Cons.IH del: main_loop.simps(2))
  finally show ?case .
qed

lemma main_loop_records:
  assumes "j < length targets" and "store_ok (ws (i + j))"
  shows "outcome_row (ws (i + j)) p (targets ! j) \<in>
         set (history (fst (main_loop a ws i path p fs targets)) path
                (sanitize_sheet_name (targets ! j)))"
  using assms
proof (induction targets arbitrary: i j fs)
  case Nil
  then show ?case by simp
next
  case (Cons u rest)
  let ?fs = "fst (main_loop_body a (ws i) path p fs u)"
  show ?case
  proof (cases j)
    case 0
    then have "outcome_row (ws (i + j)) p ((u # rest) ! j) \<in>
               set (history ?fs path (sanitize_sheet_name ((u # rest) ! j)))"
      using Cons.prems by (simp add: body_records)
    then show ?thesis
      using main_loop_keeps [of ?fs path "sanitize_sheet_name ((u # rest) ! j)" a ws "Suc i" p rest]
      by (auto simp: main_loop_Cons simp del: main_loop.simps(2))
  next
    case (Suc k)
    then have "k < length rest" "store_ok (ws (Suc i + k))"
      using Cons.prems by simp_all
    from Cons.IH [OF this, of ?fs] show ?thesis
      by (simp add: main_loop_Cons Suc del: main_loop.simps(2))
  qed
qed

lemma probe_calm: "fst (check_proxy_speed calm u p) = Some (1 / 4)"
  by (simp add: check_proxy_speed_def calm_def raise_for_status_def Let_def)

lemma probe_stormy: "fst (check_proxy_speed stormy u p) = None"
  by (simp add: check_proxy_speed_def stormy_def)

lemma probe_havoc: "fst (check_proxy_speed havoc u p) = None"
  by (simp add: check_proxy_speed_def havoc_def stormy_def)

lemma str_int_3128: "str_int 3128 = ''3128''"
  by (simp add: str_int_def str_nat.simps digit_def)

text \<open>
  Claim C3: when the probe of a target fails (\<open>requests.get\<close> raises, as it does for a
  connection error, a DNS failure and a timeout, or the response carries an error status
  from 400 to 599), \<open>check_proxy_speed\<close> returns \<open>None\<close>, \<open>main\<close> calls \<open>log_to_excel\<close> once
  for the target, with download time 0 and status \<open>DOWN\<close>, and the row of that call, which
  a store that can be read and written holds last in the target's partition, has the
  text \<open>0.0000\<close> in its download-time column.
\<close>

theorem failed_probe_recorded_down:
  assumes "requests_get w = Inl e \<or>
           (requests_get w = Inr r \<and> 400 \<le> status_code r \<and> status_code r < 600)"
  shows "fst (check_proxy_speed w u p) = None \<and>
         filter is_log_call (snd (main_loop_body a w path p fs u)) =
           [Call_log_to_excel path u 0 ''DOWN''] \<and>
         fst (main_loop_body a w path p fs u) = fst (log_to_excel w fs path u 0 ''DOWN'') \<and>
         (store_ok w \<longrightarrow>
            history (fst (main_loop_body a w path p fs u)) path (sanitize_sheet_name u) =
            history fs path (sanitize_sheet_name u) @
              [\<lparr>Timestamp = log_now w, URL = u, Download_Time = ''0.0000'', Status = ''DOWN''\<rparr>])"
proof -
  have down: "fst (check_proxy_speed w u p) = None"
    using assms by (rule check_proxy_speed_down)
  have row: "outcome_row w p u =
             \<lparr>Timestamp = log_now w, URL = u, Download_Time = ''0.0000'', Status = ''DOWN''\<rparr>"
    by (simp add: outcome_row_def down new_row_def format_4f_zero)
  have "filter is_log_call (snd (main_loop_body a w path p fs u)) =
          [Call_log_to_excel path u 0 ''DOWN'']"
    by (simp add: body_log_calls outcome_call_def down)
  moreover have "fst (main_loop_body a w path p fs u) = fst (log_to_excel w fs path u 0 ''DOWN'')"
    by (simp add: body_files down)
  moreover have "history (fst (main_loop_body a w path p fs u)) path (sanitize_sheet_name u) =
            history fs path (sanitize_sheet_name u) @
              [\<lparr>Timestamp = log_now w, URL = u, Download_Time = ''0.0000'', Status = ''DOWN''\<rparr>]"
    if "store_ok w"
    using body_records [OF that, of a path p fs u] by (simp add: row)
  ultimately show ?thesis using down by blast
qed

theorem failed_probe_recorded_down_witness:
  "requests_get stormy = Inl ''Read timed out. (read timeout=30)'' \<and> store_ok stormy \<and>
   fst (check_proxy_speed stormy ''https://b.example/x'' (proxies demo)) = None \<and>
   filter is_log_call (snd (main_loop_body demo stormy ''log.xlsx'' (proxies demo) Map.empty
                              ''https://b.example/x'')) =
     [Call_log_to_excel ''log.xlsx'' ''https://b.example/x'' 0 ''DOWN''] \<and>
   history (fst (main_loop_body demo stormy ''log.xlsx'' (proxies demo) Map.empty
                   ''https://b.example/x'')) ''log.xlsx'' ''b.example_x'' =
     [\<lparr>Timestamp = ''2024-05-01T12:00:00.000000'', URL = ''https://b.example/x'',
       Download_Time = ''0.0000'', Status = ''DOWN''\<rparr>]"
proof -
  have h: "requests_get stormy = Inl ''Read timed out. (read timeout=30)'' \<or>
           (requests_get stormy = Inr r \<and> 400 \<le> status_code r \<and> status_code r < 600)" for r
    by (simp add: stormy_def)
  have ok: "store_ok stormy" by (simp add: store_ok_def stormy_def calm_def)
  have key: "sanitize_sheet_name ''https://b.example/x'' = ''b.example_x''"
    by (simp add: sanitize_sheet_name_map underscore_def invalid_chars_def)
  have start: "history Map.empty ''log.xlsx'' ''b.example_x'' = []"
    by (simp add: history_def partition_of_def)
  have now: "log_now stormy = ''2024-05-01T12:00:00.000000''"
    by (simp add: stormy_def calm_def)
  have req: "requests_get stormy = Inl ''Read timed out. (read timeout=30)''"
    by (simp add: stormy_def)
  note run = failed_probe_recorded_down [OF h, of "''https://b.example/x''" "proxies demo" demo "''log.xlsx''" Map.empty]
  show ?thesis
    using run [THEN conjunct1] run [THEN conjunct2, THEN conjunct1]
      run [THEN conjunct2, THEN conjunct2, THEN conjunct2] ok req
    by (simp add: key start now)
qed

text \<open>
  Claim C7: in a run of \<open>main\<close> with a complete configuration, the calls of
  \<open>send_email_alert\<close> are, in order, one for each target whose probe returned \<open>None\<close>
  (the outcome \<open>DOWN\<close>), with the alert text for that target, and there is no other call:
  none for a target whose probe succeeded.
\<close>

theorem one_alert_per_down_target:
  assumes "websites a = Some targets" and "targets \<noteq> []"
    and "truthy (host a)" and "truthy_int (port a)" and "truthy (log_file a)"
  shows "\<exists>fs' evs. main a ws fs = Inr (fs', evs) \<and>
           filter is_alert_call evs =
             map (\<lambda>(j, u). Call_send_email_alert ''Proxy Server Down Alert!'' (alert_body a (ws j) u))
               (filter (\<lambda>(j, u). fst (check_proxy_speed (ws j) u (proxies a)) = None)
                  (zip [0..<length targets] targets))"
proof -
  let ?run = "main_loop a ws 0 (the (log_file a)) (proxies a) fs targets"
  have "main a ws fs = Inr (fst ?run, snd ?run)"
    using assms by (simp add: main_def truthy_def)
  moreover have "filter is_alert_call (snd ?run) =
             map (\<lambda>(j, u). Call_send_email_alert ''Proxy Server Down Alert!'' (alert_body a (ws j) u))
               (filter (\<lambda>(j, u). fst (check_proxy_speed (ws j) u (proxies a)) = None)
                  (zip [0..<length targets] targets))"
    using main_loop_alert_calls [of a ws 0 "the (log_file a)" "proxies a" fs targets] by simp
  ultimately show ?thesis by blast
qed

theorem one_alert_per_down_target_witness:
  "websites demo = Some [''https://a.example'', ''https://b.example/x''] \<and>
   truthy (host demo) \<and> truthy_int (port demo) \<and> truthy (log_file demo) \<and>
   (\<exists>fs' evs. main demo (\<lambda>j. if j = 0 then calm else stormy) Map.empty = Inr (fs', evs) \<and>
      filter is_alert_call evs =
        [Call_send_email_alert ''Proxy Server Down Alert!''
           (''The proxy server at 10.0.0.1:3128 seems to be down.'' @ [CHR 0x0A] @
            ''Failed to connect to https://b.example/x at 2024-05-01T12:00:01.000000.'' @
            [CHR 0x0A] @ ''Please check the proxy server status.'')])"
proof -
  have w: "websites demo = Some [''https://a.example'', ''https://b.example/x'']"
    by (simp add: demo_def)
  have ne: "[''https://a.example'', ''https://b.example/x''] \<noteq> []" by simp
  have h: "truthy (host demo)" and p: "truthy_int (port demo)" and l: "truthy (log_file demo)"
    by (simp_all add: demo_def truthy_def truthy_int_def)
  have two: "[0..<length [''https://a.example'', ''https://b.example/x'']] = [0, Suc 0]"
    by (simp add: upt_conv_Cons)
  have body: "alert_body demo stormy ''https://b.example/x'' =
           ''The proxy server at 10.0.0.1:3128 seems to be down.'' @ [CHR 0x0A] @
            ''Failed to connect to https://b.example/x at 2024-05-01T12:00:01.000000.'' @
            [CHR 0x0A] @ ''Please check the proxy server status.''"
    by (simp add: alert_body_def demo_def stormy_def calm_def fmt_def fmt_int_def str_int_3128)
  show ?thesis
    using one_alert_per_down_target [OF w ne h p l, of "\<lambda>j. if j = 0 then calm else stormy" Map.empty] w h p l
    unfolding two
    by (simp add: probe_calm probe_stormy body)
qed

text \<open>
  Claim C2: \<open>main\<close> ends in an error exactly when a required setting is missing, whatever
  the worlds answer. With a complete configuration it runs to its end in every sequence
  of worlds, so with any failure of the store or of the mail transport on any target:
  every target is probed, in order, the outcome of every target is handed to
  \<open>log_to_excel\<close>, and the row of every target whose own call can read and write the store
  is in the target's partition at the end.
\<close>

theorem errors_do_not_abort_run:
  "((\<exists>e. main a ws fs = Inl e) \<longleftrightarrow>
      \<not> (truthy (host a) \<and> truthy_int (port a) \<and> truthy (websites a) \<and> truthy (log_file a))) \<and>
   (websites a = Some targets \<and> log_file a = Some path \<and>
    truthy (host a) \<and> truthy_int (port a) \<and> targets \<noteq> [] \<and> path \<noteq> [] \<longrightarrow>
      (\<exists>fs' evs. main a ws fs = Inr (fs', evs) \<and>
         filter is_request evs = map (\<lambda>u. Requests_get u (proxies a) 30) targets \<and>
         filter is_log_call evs =
           map (\<lambda>(j, u). outcome_call (ws j) (proxies a) path u) (zip [0..<length targets] targets) \<and>
         (\<forall>j < length targets. store_ok (ws j) \<longrightarrow>
            outcome_row (ws j) (proxies a) (targets ! j) \<in>
              set (history fs' path (sanitize_sheet_name (targets ! j))))))"
proof (intro conjI impI)
  show "(\<exists>e. main a ws fs = Inl e) \<longleftrightarrow>
      \<not> (truthy (host a) \<and> truthy_int (port a) \<and> truthy (websites a) \<and> truthy (log_file a))"
    by (simp add: main_def)
next
  assume h: "websites a = Some targets \<and> log_file a = Some path \<and>
    truthy (host a) \<and> truthy_int (port a) \<and> targets \<noteq> [] \<and> path \<noteq> []"
  let ?run = "main_loop a ws 0 path (proxies a) fs targets"
  have "main a ws fs = Inr (fst ?run, snd ?run)"
    using h by (simp add: main_def truthy_def)
  moreover have "filter is_request (snd ?run) = map (\<lambda>u. Requests_get u (proxies a) 30) targets"
    by (rule main_loop_requests)
  moreover have "filter is_log_call (snd ?run) =
           map (\<lambda>(j, u). outcome_call (ws j) (proxies a) path u) (zip [0..<length targets] targets)"
    using main_loop_log_calls [of a ws 0 path "proxies a" fs targets] by simp
  moreover have "\<forall>j < length targets. store_ok (ws j) \<longrightarrow>
            outcome_row (ws j) (proxies a) (targets ! j) \<in>
              set (history (fst ?run) path (sanitize_sheet_name (targets ! j)))"
    using main_loop_records [of _ targets ws 0 "proxies a" a path fs] by simp
  ultimately show "\<exists>fs' evs. main a ws fs = Inr (fs', evs) \<and>
         filter is_request evs = map (\<lambda>u. Requests_get u (proxies a) 30) targets \<and>
         filter is_log_call evs =
           map (\<lambda>(j, u). outcome_call (ws j) (proxies a) path u) (zip [0..<length targets] targets) \<and>
         (\<forall>j < length targets. store_ok (ws j) \<longrightarrow>
            outcome_row (ws j) (proxies a) (targets ! j) \<in>
              set (history fs' path (sanitize_sheet_name (targets ! j))))"
    by blast
qed

theorem errors_do_not_abort_run_witness:
  "websites demo = Some [''https://a.example'', ''https://b.example/x''] \<and>
   log_file demo = Some ''log.xlsx'' \<and> truthy (host demo) \<and> truthy_int (port demo) \<and>
   write_error havoc \<noteq> None \<and> connect_error havoc \<noteq> None \<and> store_ok calm \<and>
   (\<exists>fs' evs. main demo (\<lambda>j. if j = 0 then havoc else calm) Map.empty = Inr (fs', evs) \<and>
      filter is_request evs =
        [Requests_get ''https://a.example'' (proxies demo) 30,
         Requests_get ''https://b.example/x'' (proxies demo) 30] \<and>
      \<lparr>Timestamp = ''2024-05-01T12:00:00.000000'', URL = ''https://b.example/x'',
       Download_Time = ''0.2500'', Status = ''UP''\<rparr>
        \<in> set (history fs' ''log.xlsx'' ''b.example_x''))"
proof -
  let ?ws = "\<lambda>j::nat. if j = 0 then havoc else calm"
  let ?targets = "[''https://a.example'', ''https://b.example/x'']"
  have cfg: "websites demo = Some ?targets \<and> log_file demo = Some ''log.xlsx'' \<and>
    truthy (host demo) \<and> truthy_int (port demo) \<and> ?targets \<noteq> [] \<and> ''log.xlsx'' \<noteq> []"
    by (simp add: demo_def truthy_def truthy_int_def)
  have bad: "write_error havoc \<noteq> None \<and> connect_error havoc \<noteq> None"
    by (simp add: havoc_def)
  have ok: "store_ok calm" by (simp add: store_ok_def calm_def)
  have key: "sanitize_sheet_name ''https://b.example/x'' = ''b.example_x''"
    by (simp add: sanitize_sheet_name_map underscore_def invalid_chars_def)
  have row: "outcome_row calm (proxies demo) ''https://b.example/x'' =
      \<lparr>Timestamp = ''2024-05-01T12:00:00.000000'', URL = ''https://b.example/x'',
       Download_Time = ''0.2500'', Status = ''UP''\<rparr>"
    by (simp add: outcome_row_def probe_calm new_row_def)
       (simp add: calm_def format_4f_def round_half_even_def digit_def str_nat.simps)
  from errors_do_not_abort_run [of demo ?ws Map.empty ?targets "''log.xlsx''", THEN conjunct2, rule_format, OF cfg]
  obtain fs' evs where run: "main demo ?ws Map.empty = Inr (fs', evs)"
    and req: "filter is_request evs = map (\<lambda>u. Requests_get u (proxies demo) 30) ?targets"
    and rec: "\<forall>j < length ?targets. store_ok (?ws j) \<longrightarrow>
            outcome_row (?ws j) (proxies demo) (?targets ! j) \<in>
              set (history fs' ''log.xlsx'' (sanitize_sheet_name (?targets ! j)))"
    by blast
  from rec [rule_format, of 1] ok
  have "outcome_row calm (proxies demo) ''https://b.example/x'' \<in>
        set (history fs' ''log.xlsx'' (sanitize_sheet_name ''https://b.example/x''))"
    by simp
  then have "\<lparr>Timestamp = ''2024-05-01T12:00:00.000000'', URL = ''https://b.example/x'',
       Download_Time = ''0.2500'', Status = ''UP''\<rparr>
        \<in> set (history fs' ''log.xlsx'' ''b.example_x'')"
    by (simp add: key row)
  with run req cfg bad ok show ?thesis by auto
qed

section \<open>The alert\<close>

lemma truthy_simps [simp]:
  "truthy None = False" "truthy (Some s) = (s \<noteq> [])"
  by (simp_all add: truthy_def)

lemma truthy_int_simps [simp]:
  "truthy_int None = False" "truthy_int (Some n) = (n \<noteq> 0)"
  by (simp_all add: truthy_int_def)

lemma send_email_alert_local:
  assumes "use_local_mta a" and "truthy (recipient_email a)"
  shows "send_email_alert a w subject body =
     (let msg = \<lparr>Body = body, Subject = Some subject, To = recipient_email a,
                 From = Some (local_sender w)\<rparr>
      in case connect_error w of
           Some e \<Rightarrow> [SMTP ''localhost'', Print (''Failed to send email alert: '' @ e)]
         | None \<Rightarrow>
            (case send_error w of
               Some e \<Rightarrow> [SMTP ''localhost'', Send_message msg, Quit,
                          Print (''Failed to send email alert: '' @ e)]
             | None \<Rightarrow> [SMTP ''localhost'', Send_message msg, Quit,
                        Print ''Email alert sent successfully via local MTA.'']))"
  using assms
  by (simp add: send_email_alert_def send_email_alert_try_def local_sender_def Let_def
      split: option.splits)

lemma send_email_alert_incomplete:
  assumes "\<not> use_local_mta a"
    and "\<not> (truthy (smtp_server a) \<and> truthy_int (smtp_port a) \<and> truthy (smtp_user a) \<and>
            truthy (smtp_password a))"
  shows "send_email_alert a w subject body =
     (if truthy (recipient_email a)
      then [Print ''External SMTP server configuration is not complete. Skipping email alert.'']
      else [Print ''Recipient email not configured. Skipping email alert.''])"
  using assms by (simp add: send_email_alert_def send_email_alert_try_def)

text \<open>
  Claim C6: when no recipient is configured (the field is \<open>None\<close> or empty),
  \<open>send_email_alert\<close> prints that it skips the alert and returns: for every subject, body
  and world, and in both modes, it makes no call on the mail transport, and it does not
  enter the \<open>try\<close> statement, so there is no error to report.
\<close>

theorem no_recipient_no_transport:
  assumes "recipient_email a = None \<or> recipient_email a = Some ''''"
  shows "send_email_alert a w subject body =
           [Print ''Recipient email not configured. Skipping email alert.''] \<and>
         filter is_transport (send_email_alert a w subject body) = []"
  using assms by (auto simp: send_email_alert_def)

theorem no_recipient_no_transport_witness:
  "recipient_email (demo\<lparr>recipient_email := None\<rparr>) = None \<and>
   send_email_alert (demo\<lparr>recipient_email := None\<rparr>) calm ''Proxy Server Down Alert!'' ''down'' =
     [Print ''Recipient email not configured. Skipping email alert.''] \<and>
   filter is_transport
     (send_email_alert (demo\<lparr>recipient_email := None\<rparr>) calm ''Proxy Server Down Alert!'' ''down'') = []"
  using no_recipient_no_transport [of "demo\<lparr>recipient_email := None\<rparr>" calm "''Proxy Server Down Alert!''" "''down''"]
  by simp

text \<open>
  Claim C5: with a recipient configured and local-relay mode selected, the transport
  calls are those of the local relay: the connection to \<open>localhost\<close> and, when it is
  accepted, the message with the sender built from the OS user and the host name; and
  whatever the four remote fields hold, the alert does the same. In remote mode with one
  of server, port, user and password absent there is no transport call, and
  \<open>send_email_alert\<close> prints that it skips the alert.
\<close>

theorem alert_mode_exclusive:
  "(use_local_mta a \<and> truthy (recipient_email a) \<longrightarrow>
      filter is_transport (send_email_alert a w subject body) =
        (if connect_error w = None
         then [SMTP ''localhost'',
               Send_message \<lparr>Body = body, Subject = Some subject, To = recipient_email a,
                              From = Some (local_sender w)\<rparr>,
               Quit]
         else [SMTP ''localhost'']) \<and>
      send_email_alert
        (a\<lparr>smtp_server := s, smtp_port := n, smtp_user := u, smtp_password := pw\<rparr>) w subject body =
        send_email_alert a w subject body) \<and>
   (\<not> use_local_mta a \<and>
    (smtp_server a = None \<or> smtp_port a = None \<or> smtp_user a = None \<or> smtp_password a = None) \<longrightarrow>
      filter is_transport (send_email_alert a w subject body) = [] \<and>
      (truthy (recipient_email a) \<longrightarrow>
         send_email_alert a w subject body =
           [Print ''External SMTP server configuration is not complete. Skipping email alert.'']))"
proof (intro conjI impI)
  assume h: "use_local_mta a \<and> truthy (recipient_email a)"
  show "filter is_transport (send_email_alert a w subject body) =
        (if connect_error w = None
         then [SMTP ''localhost'',
               Send_message \<lparr>Body = body, Subject = Some subject, To = recipient_email a,
                              From = Some (local_sender w)\<rparr>,
               Quit]
         else [SMTP ''localhost''])"
    using h by (auto simp: send_email_alert_local Let_def split: option.splits)
  let ?a = "a\<lparr>smtp_server := s, smtp_port := n, smtp_user := u, smtp_password := pw\<rparr>"
  have "use_local_mta ?a" "truthy (recipient_email ?a)" using h by simp_all
  then have "send_email_alert ?a w subject body =
     (let msg = \<lparr>Body = body, Subject = Some subject, To = recipient_email ?a,
                 From = Some (local_sender w)\<rparr>
      in case connect_error w of
           Some e \<Rightarrow> [SMTP ''localhost'', Print (''Failed to send email alert: '' @ e)]
         | None \<Rightarrow>
            (case send_error w of
               Some e \<Rightarrow> [SMTP ''localhost'', Send_message msg, Quit,
                          Print (''Failed to send email alert: '' @ e)]
             | None \<Rightarrow> [SMTP ''localhost'', Send_message msg, Quit,
                        Print ''Email alert sent successfully via local MTA.'']))"
    by (rule send_email_alert_local)
  then show "send_email_alert ?a w subject body = send_email_alert a w subject body"
    using h by (simp add: send_email_alert_local)
next
  assume h: "\<not> use_local_mta a \<and>
    (smtp_server a = None \<or> smtp_port a = None \<or> smtp_user a = None \<or> smtp_password a = None)"
  then have inc: "\<not> (truthy (smtp_server a) \<and> truthy_int (smtp_port a) \<and> truthy (smtp_user a) \<and>
            truthy (smtp_password a))"
    by auto
  show "filter is_transport (send_email_alert a w subject body) = []"
    using h inc by (simp add: send_email_alert_incomplete)
  show "send_email_alert a w subject body =
           [Print ''External SMTP server configuration is not complete. Skipping email alert.'']"
    if "truthy (recipient_email a)"
    using h inc that by (simp add: send_email_alert_incomplete)
qed

theorem alert_mode_exclusive_witness:
  "use_local_mta demo \<and> truthy (recipient_email demo) \<and>
   filter is_transport (send_email_alert demo calm ''Proxy Server Down Alert!'' ''down'') =
     [SMTP ''localhost'',
      Send_message \<lparr>Body = ''down'', Subject = Some ''Proxy Server Down Alert!'',
                     To = Some ''ops@example.org'', From = Some ''monitor@probe01''\<rparr>,
      Quit] \<and>
   send_email_alert (demo\<lparr>smtp_server := None, smtp_port := None, smtp_user := None,
                          smtp_password := None\<rparr>) calm ''Proxy Server Down Alert!'' ''down'' =
     send_email_alert demo calm ''Proxy Server Down Alert!'' ''down'' \<and>
   \<not> use_local_mta remote \<and> smtp_password remote = None \<and>
   send_email_alert remote calm ''Proxy Server Down Alert!'' ''down'' =
     [Print ''External SMTP server configuration is not complete. Skipping email alert.''] \<and>
   filter is_transport (send_email_alert remote calm ''Proxy Server Down Alert!'' ''down'') = []"
proof -
  have local: "use_local_mta demo \<and> truthy (recipient_email demo)"
    by (simp add: demo_def truthy_def)
  have rem: "\<not> use_local_mta remote \<and>
    (smtp_server remote = None \<or> smtp_port remote = None \<or> smtp_user remote = None \<or>
     smtp_password remote = None)"
    by (simp add: remote_def demo_def)
  have rcpt: "truthy (recipient_email remote)"
    by (simp add: remote_def demo_def truthy_def)
  show ?thesis
    using alert_mode_exclusive [of demo calm "''Proxy Server Down Alert!''" "''down''" None None None None]
      alert_mode_exclusive [of remote calm "''Proxy Server Down Alert!''" "''down''"] local rem rcpt
    by (simp add: demo_def calm_def local_sender_def remote_def)
qed

text \<open>
  Claim C10: in remote mode a field that is present but false (port 0, or an empty
  server, user or password) is treated as an absent one: no transport call is made, the
  alert is skipped, and \<open>send_email_alert\<close> does what it does with that field set to
  \<open>None\<close>.
\<close>

theorem falsy_smtp_field_skips:
  assumes "\<not> use_local_mta a"
    and "smtp_port a = Some 0 \<or> smtp_server a = Some '''' \<or> smtp_user a = Some '''' \<or>
         smtp_password a = Some ''''"
  shows "filter is_transport (send_email_alert a w subject body) = [] \<and>
         (truthy (recipient_email a) \<longrightarrow>
            send_email_alert a w subject body =
              [Print ''External SMTP server configuration is not complete. Skipping email alert.'']) \<and>
         (smtp_port a = Some 0 \<longrightarrow>
            send_email_alert a w subject body = send_email_alert (a\<lparr>smtp_port := None\<rparr>) w subject body) \<and>
         (smtp_server a = Some '''' \<longrightarrow>
            send_email_alert a w subject body = send_email_alert (a\<lparr>smtp_server := None\<rparr>) w subject body) \<and>
         (smtp_user a = Some '''' \<longrightarrow>
            send_email_alert a w subject body = send_email_alert (a\<lparr>smtp_user := None\<rparr>) w subject body) \<and>
         (smtp_password a = Some '''' \<longrightarrow>
            send_email_alert a w subject body =
              send_email_alert (a\<lparr>smtp_password := None\<rparr>) w subject body)"
proof -
  have inc: "\<not> (truthy (smtp_server a) \<and> truthy_int (smtp_port a) \<and> truthy (smtp_user a) \<and>
            truthy (smtp_password a))"
    using assms(2) by auto
  show ?thesis
    using assms(1) inc
    by (auto simp: send_email_alert_incomplete)
qed

theorem falsy_smtp_field_skips_witness:
  "\<not> use_local_mta (remote\<lparr>smtp_password := Some ''secret'', smtp_port := Some 0\<rparr>) \<and>
   smtp_port (remote\<lparr>smtp_password := Some ''secret'', smtp_port := Some 0\<rparr>) = Some 0 \<and>
   filter is_transport
     (send_email_alert (remote\<lparr>smtp_password := Some ''secret'', smtp_port := Some 0\<rparr>) calm
        ''Proxy Server Down Alert!'' ''down'') = [] \<and>
   send_email_alert (remote\<lparr>smtp_password := Some ''secret'', smtp_port := Some 0\<rparr>) calm
        ''Proxy Server Down Alert!'' ''down'' =
     [Print ''External SMTP server configuration is not complete. Skipping email alert.'']"
proof -
  let ?a = "remote\<lparr>smtp_password := Some ''secret'', smtp_port := Some 0\<rparr>"
  have h1: "\<not> use_local_mta ?a" by (simp add: remote_def demo_def)
  have h2: "smtp_port ?a = Some 0 \<or> smtp_server ?a = Some '''' \<or> smtp_user ?a = Some '''' \<or>
         smtp_password ?a = Some ''''" by simp
  have rcpt: "truthy (recipient_email ?a)" by (simp add: remote_def demo_def truthy_def)
  show ?thesis
    using falsy_smtp_field_skips [OF h1 h2, of calm "''Proxy Server Down Alert!''" "''down''"] h1 rcpt by simp
qed

end
